theory Spec2Isabelle
  imports Complex_Main
begin

section \<open>Master Grow Logic: the four calculation engines\<close>

text \<open>
  The program is a single script (\<^verbatim>\<open>grow_cal_8.62.py\<close>) whose four tabs compute a yield
  prediction, an electricity bill, an extraction return and a hardware recommendation.
  Each variable the script assigns is a definition of the same name here, a function of
  the widget values it is computed from.

  Numbers: the widgets created with integer bounds return Python \<open>int\<close> (type \<open>int\<close>
  here), the others return \<open>float\<close>. Floats are read as exact real numbers (type
  \<open>real\<close>): every statement below is about the arithmetic the script writes down, not
  about IEEE rounding. Selections are the option strings the script compares against.
  Exceptions are values of \<open>py_error\<close>, in the left summand of the result.
\<close>

datatype py_error = ZeroDivisionError | NameError string


subsection \<open>Tab 1: yield simulator\<close>

text \<open>
  The values of the sidebar and of the three input columns (lines 24--31 and 48--65).
  \<open>length_ft\<close> is the script's \<^verbatim>\<open>length\<close>.
\<close>

record yield_inputs =
  grower_skill :: real
  GRAMS_PER_WATT_LED :: real
  MAX_G_PER_SQFT :: real
  length_ft :: int
  width :: int
  system_type :: string
  true_watts :: int
  light_type :: string
  co2_supplement :: bool
  plant_count :: int
  pot_size :: real
  strain_type :: string
  training :: "string list"

text \<open>
  The ranges the widgets enforce on what the user can enter: \<^verbatim>\<open>number_input(label, min,
  max, value)\<close> and \<^verbatim>\<open>slider(label, min, max, value)\<close>. The two calibration inputs are
  created with a default value only and have no range.
\<close>

definition widget_ranges :: "yield_inputs \<Rightarrow> bool" where
  "widget_ranges i =
    (0.5 \<le> grower_skill i \<and> grower_skill i \<le> 1.5 \<and>
     1 \<le> length_ft i \<and> length_ft i \<le> 20 \<and>
     1 \<le> width i \<and> width i \<le> 20 \<and>
     50 \<le> true_watts i \<and> true_watts i \<le> 2000 \<and>
     1 \<le> plant_count i \<and> plant_count i \<le> 50 \<and>
     0.5 \<le> pot_size i \<and> pot_size i \<le> 30.0)"

definition sq_ft :: "yield_inputs \<Rightarrow> int" where
  "sq_ft i = length_ft i * width i"

definition light_eff :: "yield_inputs \<Rightarrow> real" where
  "light_eff i =
    (if light_type i = ''High-End LED (Bar)'' then 1.0
     else if light_type i = ''Budget LED (Quantum)'' then 0.85
     else if light_type i = ''HPS/CMH'' then 0.70
     else 0.50)"

definition med_eff :: "yield_inputs \<Rightarrow> real" where
  "med_eff i =
    (if system_type i = ''Aeroponics'' then 1.25
     else if system_type i = ''DWC/Hydro'' then 1.20
     else if system_type i = ''Coco Coir'' then 1.10
     else 1.0)"

definition train_mult :: "yield_inputs \<Rightarrow> real" where
  "train_mult i =
    (let t = 1.0 + (real (length (training i)) * 0.08)
     in if ''Scrog (Net)'' \<in> set (training i) then t + 0.05 else t)"

definition co2_mult :: "yield_inputs \<Rightarrow> real" where
  "co2_mult i = (if co2_supplement i then 1.25 else 1.0)"

definition limit_light_g :: "yield_inputs \<Rightarrow> real" where
  "limit_light_g i =
    of_int (true_watts i) * GRAMS_PER_WATT_LED i * light_eff i * co2_mult i"

definition limit_space_g :: "yield_inputs \<Rightarrow> real" where
  "limit_space_g i = of_int (sq_ft i) * MAX_G_PER_SQFT i"

definition plant_ceiling :: "yield_inputs \<Rightarrow> real" where
  "plant_ceiling i = (if strain_type i = ''Autoflower'' then 400 else 800)"

definition root_eff :: "yield_inputs \<Rightarrow> real" where
  "root_eff i =
    (if system_type i \<in> set [''DWC/Hydro'', ''Aeroponics''] then 1.5 else 1.0)"

definition per_plant_max :: "yield_inputs \<Rightarrow> real" where
  "per_plant_max i =
    (let p = 30 + (pot_size i * 35 * root_eff i)
     in if p > plant_ceiling i then plant_ceiling i else p)"

definition limit_root_g :: "yield_inputs \<Rightarrow> real" where
  "limit_root_g i = per_plant_max i * of_int (plant_count i)"

definition bottleneck :: "yield_inputs \<Rightarrow> real" where
  "bottleneck i = min (limit_light_g i) (min (limit_space_g i) (limit_root_g i))"

definition max_physics :: "yield_inputs \<Rightarrow> real" where
  "max_physics i = of_int (true_watts i) * 3.0"

definition predicted_yield_g :: "yield_inputs \<Rightarrow> real" where
  "predicted_yield_g i =
    (let p = bottleneck i * grower_skill i * train_mult i * med_eff i
     in if p > max_physics i then max_physics i else p)"

text \<open>
  The bottleneck analysis (lines 142--147) is an \<^verbatim>\<open>if/elif/elif\<close> chain with no
  \<^verbatim>\<open>else\<close>: when no comparison succeeds, no warning is shown (\<open>None\<close>).
\<close>

datatype factor = LIGHT | SPACE | ROOTS

definition limiting_factor :: "yield_inputs \<Rightarrow> factor option" where
  "limiting_factor i =
    (if bottleneck i = limit_light_g i then Some LIGHT
     else if bottleneck i = limit_space_g i then Some SPACE
     else if bottleneck i = limit_root_g i then Some ROOTS
     else None)"

text \<open>The ceiling a label names.\<close>

fun limit_of :: "yield_inputs \<Rightarrow> factor \<Rightarrow> real" where
  "limit_of i LIGHT = limit_light_g i"
| "limit_of i SPACE = limit_space_g i"
| "limit_of i ROOTS = limit_root_g i"



text \<open>The scenario of the specification: a 4x4 tent, 600 W, four plants in 5 gallon pots.\<close>

definition scenario_4x4 :: yield_inputs where
  "scenario_4x4 =
    \<lparr>grower_skill = 1.0, GRAMS_PER_WATT_LED = 2.2, MAX_G_PER_SQFT = 65.0,
     length_ft = 4, width = 4, system_type = ''Soil'', true_watts = 600,
     light_type = ''High-End LED (Bar)'', co2_supplement = False, plant_count = 4,
     pot_size = 5.0, strain_type = ''Photoperiod Feminized'', training = []\<rparr>"

subsection \<open>Tab 2: precision energy\<close>

text \<open>
  A row of the device table (\<^verbatim>\<open>add_device\<close>, line 164) and the inputs of the tab: the
  three phase lengths and the sidebar's electricity price. Rows are taken as the table's
  columns type them: a string and four numbers.
\<close>

record device =
  name :: string
  watts :: real
  veg_duty :: real
  flower_duty :: real
  dry_duty :: real

record energy_inputs =
  days_veg :: int
  days_flower :: int
  days_dry :: int
  kwh_cost :: real

text \<open>
  Python's \<^verbatim>\<open>sub in s\<close> on strings: \<open>sub\<close> occurs in \<open>s\<close> as a contiguous run of
  characters, compared character by character (so case matters).
\<close>

fun starts_with :: "string \<Rightarrow> string \<Rightarrow> bool" where
  "starts_with [] s = True"
| "starts_with (p # ps) [] = False"
| "starts_with (p # ps) (c # cs) = (p = c \<and> starts_with ps cs)"

fun str_in :: "string \<Rightarrow> string \<Rightarrow> bool" where
  "str_in sub [] = (sub = [])"
| "str_in sub (c # cs) = (starts_with sub (c # cs) \<or> str_in sub cs)"

text \<open>The test of line 198.\<close>

definition is_light :: "device \<Rightarrow> bool" where
  "is_light row = str_in ''Light'' (name row)"

definition kwh_veg :: "energy_inputs \<Rightarrow> device \<Rightarrow> real" where
  "kwh_veg e row =
    (if is_light row then (watts row * 18 * veg_duty row * of_int (days_veg e)) / 1000
     else (watts row * 24 * veg_duty row * of_int (days_veg e)) / 1000)"

definition kwh_flow :: "energy_inputs \<Rightarrow> device \<Rightarrow> real" where
  "kwh_flow e row =
    (if is_light row then (watts row * 12 * flower_duty row * of_int (days_flower e)) / 1000
     else (watts row * 24 * flower_duty row * of_int (days_flower e)) / 1000)"

definition kwh_dry :: "energy_inputs \<Rightarrow> device \<Rightarrow> real" where
  "kwh_dry e row =
    (if is_light row then 0
     else (watts row * 24 * dry_duty row * of_int (days_dry e)) / 1000)"

text \<open>
  The accumulators of the loop of lines 188--210: \<^verbatim>\<open>total_kwh\<close> and the three entries of
  the dictionary \<^verbatim>\<open>phase_costs\<close>.
\<close>

record energy_acc =
  total_kwh :: real
  phase_costs_Veg :: real
  phase_costs_Flower :: real
  phase_costs_Dry :: real

definition energy_start :: energy_acc where
  "energy_start =
    \<lparr>total_kwh = 0, phase_costs_Veg = 0, phase_costs_Flower = 0, phase_costs_Dry = 0\<rparr>"

definition energy_row :: "energy_inputs \<Rightarrow> energy_acc \<Rightarrow> device \<Rightarrow> energy_acc" where
  "energy_row e acc row =
    \<lparr>total_kwh = total_kwh acc + (kwh_veg e row + kwh_flow e row + kwh_dry e row),
     phase_costs_Veg = phase_costs_Veg acc + kwh_veg e row * kwh_cost e,
     phase_costs_Flower = phase_costs_Flower acc + kwh_flow e row * kwh_cost e,
     phase_costs_Dry = phase_costs_Dry acc + kwh_dry e row * kwh_cost e\<rparr>"

fun energy_rows :: "energy_inputs \<Rightarrow> energy_acc \<Rightarrow> device list \<Rightarrow> energy_acc" where
  "energy_rows e acc [] = acc"
| "energy_rows e acc (row # rows) = energy_rows e (energy_row e acc row) rows"

definition total_cost :: "energy_inputs \<Rightarrow> device list \<Rightarrow> real" where
  "total_cost e edited_df = total_kwh (energy_rows e energy_start edited_df) * kwh_cost e"


text \<open>The device and cycle of the specification's energy scenario.\<close>

definition main_grow_light :: "real \<Rightarrow> device" where
  "main_grow_light dry =
    \<lparr>name = ''Main Grow Light'', watts = 600, veg_duty = 1.0, flower_duty = 1.0,
     dry_duty = dry\<rparr>"

definition cycle_35_63 :: "int \<Rightarrow> energy_inputs" where
  "cycle_35_63 dry = \<lparr>days_veg = 35, days_flower = 63, days_dry = dry, kwh_cost = 0.14\<rparr>"

subsection \<open>Tab 3: hash and rosin\<close>

text \<open>
  The widget values of the tab. The two press sliders have integer bounds, the wash slider
  has float bounds. Only the sliders of the selected branch exist in a run; the record
  carries all of them and each branch reads its own.
\<close>

record extract_inputs =
  input_type :: string
  input_amount_oz :: real
  return_rate :: int
  wash_yield :: real
  press_yield :: int

definition input_g :: "extract_inputs \<Rightarrow> real" where
  "input_g x = input_amount_oz x * 28.35"

text \<open>\<^verbatim>\<open>hash_g\<close> is assigned on the fresh frozen branch only.\<close>

definition hash_g :: "extract_inputs \<Rightarrow> real option" where
  "hash_g x =
    (if input_type x = ''Dry Cured Flower'' then None
     else Some (input_g x * (wash_yield x / 100)))"

definition rosin_g :: "extract_inputs \<Rightarrow> real" where
  "rosin_g x =
    (if input_type x = ''Dry Cured Flower'' then input_g x * (of_int (return_rate x) / 100)
     else (input_g x * (wash_yield x / 100)) * (of_int (press_yield x) / 100))"

text \<open>Ten ounces of material with the sliders at their defaults.\<close>

definition ten_ounces :: "string \<Rightarrow> extract_inputs" where
  "ten_ounces material =
    \<lparr>input_type = material, input_amount_oz = 10, return_rate = 20, wash_yield = 4.0,
     press_yield = 75\<rparr>"

subsection \<open>Tab 4: reverse engineer\<close>

definition target_g :: "string \<Rightarrow> real \<Rightarrow> real" where
  "target_g target_unit target_val =
    (if target_unit = ''Ounces'' then target_val * 28.35
     else if target_unit = ''Pounds'' then target_val * 453.59
     else target_val * 1000)"

definition req_watts :: "real \<Rightarrow> real" where
  "req_watts tg = tg / 1.5"

definition req_sqft :: "real \<Rightarrow> real" where
  "req_sqft tg = tg / 40.0"

text \<open>The tent logic of lines 293--307 assigns \<^verbatim>\<open>tent_rec\<close> and \<^verbatim>\<open>light_rec\<close> together.\<close>

definition tent_logic :: "real \<Rightarrow> string \<times> string" where
  "tent_logic sqft =
    (if sqft < 5 then (''2x2.5 or 2x4 Tent'', ''200W-300W LED'')
     else if sqft < 10 then (''3x3 or 2x4 Tent'', ''300W-480W LED'')
     else if sqft < 17 then (''4x4 Tent'', ''600W-720W Bar LED'')
     else if sqft < 26 then (''5x5 Tent'', ''800W-1000W Bar LED + CO2'')
     else (''Multiple Tents or Dedicated Room'', ''Multi-light Setup''))"

definition tent_rec :: "real \<Rightarrow> string" where
  "tent_rec tg = fst (tent_logic (req_sqft tg))"

definition light_rec :: "real \<Rightarrow> string" where
  "light_rec tg = snd (tent_logic (req_sqft tg))"

text \<open>
  Line 312 reads the global name \<^verbatim>\<open>math\<close> before it calls anything. A global name is
  bound by an import or an assignment of the script (the builtins hold no \<^verbatim>\<open>math\<close>);
  reading an unbound name raises \<^verbatim>\<open>NameError\<close>. \<open>est_pots\<close> takes the names bound
  when the line runs; \<open>script_globals\<close> are those of this script: the imports of lines
  1--4 and the variables assigned before line 312.
\<close>

definition load_name :: "string list \<Rightarrow> string \<Rightarrow> py_error + unit" where
  "load_name globals n = (if n \<in> set globals then Inr () else Inl (NameError n))"

definition est_pots :: "string list \<Rightarrow> real \<Rightarrow> py_error + int" where
  "est_pots globals tg =
    (case load_name globals ''math'' of
       Inl err \<Rightarrow> Inl err
     | Inr m \<Rightarrow> Inr \<lceil>tg / 112\<rceil>)"

definition imported_names :: "string list" where
  "imported_names = [''st'', ''pd'', ''np'', ''date'', ''timedelta'']"

definition assigned_names :: "string list" where
  "assigned_names =
    [''currency_symbol'', ''kwh_cost'', ''grower_skill'', ''GRAMS_PER_WATT_LED'',
     ''MAX_G_PER_SQFT'', ''tab_yield'', ''tab_power'', ''tab_extract'', ''tab_reverse'',
     ''col1'', ''col2'', ''col3'', ''length'', ''width'', ''sq_ft'', ''system_type'',
     ''true_watts'', ''light_type'', ''co2_supplement'', ''plant_count'', ''pot_size'',
     ''strain_type'', ''training'', ''light_eff'', ''med_eff'', ''train_mult'',
     ''co2_mult'', ''limit_light_g'', ''limit_space_g'', ''plant_ceiling'', ''root_eff'',
     ''per_plant_max'', ''limit_root_g'', ''bottleneck'', ''predicted_yield_g'',
     ''max_physics'', ''m1'', ''m2'', ''m3'', ''m4'', ''chart_data'', ''c1'', ''c2'',
     ''c3'', ''days_veg'', ''days_flower'', ''days_dry'', ''add_device'',
     ''default_devices'', ''df_devices'', ''edited_df'', ''total_kwh'', ''phase_costs'',
     ''index'', ''row'', ''w'', ''kwh_veg'', ''kwh_flow'', ''kwh_dry'', ''total_cost'',
     ''c_tot'', ''c_g'', ''cost_per_gram'', ''input_type'', ''col_in'', ''col_calc'',
     ''input_amount_oz'', ''input_g'', ''return_rate'', ''rosin_g'', ''wash_yield'',
     ''press_yield'', ''hash_g'', ''target_unit'', ''target_val'', ''target_g'',
     ''req_watts'', ''req_sqft'', ''col_rec1'', ''col_rec2'', ''tent_rec'',
     ''light_rec'']"

definition script_globals :: "string list" where
  "script_globals = imported_names @ assigned_names"

section \<open>Properties of the yield engine\<close>

text \<open>The 4x4 scenario, evaluated step by step.\<close>

lemma scenario_4x4_limits:
  "limit_light_g scenario_4x4 = 1320"
  "limit_space_g scenario_4x4 = 1040"
  "per_plant_max scenario_4x4 = 205"
  "limit_root_g scenario_4x4 = 820"
  by (simp_all add: scenario_4x4_def limit_light_g_def limit_space_g_def per_plant_max_def
      limit_root_g_def light_eff_def co2_mult_def sq_ft_def plant_ceiling_def
      root_eff_def Let_def)

lemma scenario_4x4_modifiers:
  "grower_skill scenario_4x4 = 1"
  "train_mult scenario_4x4 = 1"
  "med_eff scenario_4x4 = 1"
  by (simp_all add: scenario_4x4_def train_mult_def med_eff_def)

lemma scenario_4x4_predicted:
  "bottleneck scenario_4x4 = 820"
  "max_physics scenario_4x4 = 1800"
  "predicted_yield_g scenario_4x4 = 820"
proof -
  show b: "bottleneck scenario_4x4 = 820"
    by (simp add: bottleneck_def scenario_4x4_limits)
  show m: "max_physics scenario_4x4 = 1800"
    by (simp add: max_physics_def scenario_4x4_def)
  show "predicted_yield_g scenario_4x4 = 820"
    by (simp add: predicted_yield_g_def b m scenario_4x4_modifiers)
qed

lemma scenario_4x4_in_ranges: "widget_ranges scenario_4x4"
  by (simp add: widget_ranges_def scenario_4x4_def)

lemma ranges_positive: "widget_ranges i \<Longrightarrow> 0 < true_watts i \<and> 0 < length_ft i * width i"
  by (auto simp: widget_ranges_def)

lemma predicted_capped: "predicted_yield_g i \<le> of_int (true_watts i) * 3.0"
  by (simp add: predicted_yield_g_def max_physics_def Let_def)

text \<open>
  Claim C1. The predicted yield never exceeds the smallest of the three ceilings
  multiplied by grower skill, training multiplier and medium efficiency, and never
  exceeds three grams per watt of true draw. The cap of line 120 gives both bounds for
  every input, so in particular for the well-formed ones (positive length, width, watts,
  pot size and plant count).
\<close>

theorem predicted_yield_bounded:
  "predicted_yield_g i
     \<le> min (limit_light_g i) (min (limit_space_g i) (limit_root_g i))
         * grower_skill i * train_mult i * med_eff i
   \<and> predicted_yield_g i \<le> of_int (true_watts i) * 3.0"
  by (simp add: predicted_yield_g_def bottleneck_def max_physics_def Let_def)

text \<open>
  Claim C2. In the 4x4 scenario the light ceiling is 1320 g, the space ceiling 1040 g,
  the per-plant maximum 205 g (below the ceiling of 800 g) and the root ceiling 820 g;
  the bottleneck is 820 g and it is the root ceiling; the three modifiers leave it at
  820 g, the cap is 1800 g and is not applied, so the prediction is 820 g.
\<close>

theorem scenario_4x4_yield:
  "limit_light_g scenario_4x4 = 1320
   \<and> limit_space_g scenario_4x4 = 1040
   \<and> plant_ceiling scenario_4x4 = 800
   \<and> per_plant_max scenario_4x4 = 205
   \<and> limit_root_g scenario_4x4 = 820
   \<and> bottleneck scenario_4x4 = 820
   \<and> limiting_factor scenario_4x4 = Some ROOTS
   \<and> bottleneck scenario_4x4 * grower_skill scenario_4x4 * train_mult scenario_4x4
       * med_eff scenario_4x4 = 820
   \<and> max_physics scenario_4x4 = 1800
   \<and> predicted_yield_g scenario_4x4 = 820"
proof -
  have c: "plant_ceiling scenario_4x4 = 800"
    by (simp add: plant_ceiling_def scenario_4x4_def)
  have f: "limiting_factor scenario_4x4 = Some ROOTS"
    by (simp add: limiting_factor_def scenario_4x4_predicted scenario_4x4_limits)
  show ?thesis
    by (simp add: c f scenario_4x4_limits scenario_4x4_predicted scenario_4x4_modifiers)
qed

text \<open>
  Claim C3. A limiting factor is always reported, and the ceiling it names equals the
  minimum of the three ceilings. The label is LIGHT exactly when the light ceiling is the
  minimum; SPACE exactly when the space ceiling is the minimum and the light ceiling is
  not; ROOTS exactly when the root ceiling is the minimum and neither of the others is.
\<close>

theorem limiting_factor_is_minimum:
  "(case limiting_factor i of
      None \<Rightarrow> False
    | Some f \<Rightarrow>
        limit_of i f = min (limit_light_g i) (min (limit_space_g i) (limit_root_g i)))
   \<and> (limiting_factor i = Some LIGHT) =
       (limit_light_g i = min (limit_light_g i) (min (limit_space_g i) (limit_root_g i)))
   \<and> (limiting_factor i = Some SPACE) =
       (limit_space_g i = min (limit_light_g i) (min (limit_space_g i) (limit_root_g i))
        \<and> limit_light_g i \<noteq> min (limit_light_g i) (min (limit_space_g i) (limit_root_g i)))
   \<and> (limiting_factor i = Some ROOTS) =
       (limit_root_g i = min (limit_light_g i) (min (limit_space_g i) (limit_root_g i))
        \<and> limit_light_g i \<noteq> min (limit_light_g i) (min (limit_space_g i) (limit_root_g i))
        \<and> limit_space_g i \<noteq> min (limit_light_g i) (min (limit_space_g i) (limit_root_g i)))"
  by (auto simp: limiting_factor_def bottleneck_def min_def)




section \<open>Properties of the energy engine\<close>

lemma starts_with_iff: "starts_with p s = (\<exists>ss. s = p @ ss)"
  by (induction p s rule: starts_with.induct) auto

lemma str_in_iff: "str_in sub s = (\<exists>ps ss. s = ps @ sub @ ss)"
proof (induction s)
  case Nil
  then show ?case by auto
next
  case (Cons c cs)
  show ?case
  proof
    assume "str_in sub (c # cs)"
    then consider "starts_with sub (c # cs)" | "str_in sub cs" by auto
    then show "\<exists>ps ss. c # cs = ps @ sub @ ss"
    proof cases
      case 1
      then obtain ss where "c # cs = sub @ ss" by (auto simp: starts_with_iff)
      then have "c # cs = [] @ sub @ ss" by simp
      then show ?thesis by blast
    next
      case 2
      then obtain ps ss where "cs = ps @ sub @ ss" using Cons.IH by auto
      then have "c # cs = (c # ps) @ sub @ ss" by simp
      then show ?thesis by blast
    qed
  next
    assume "\<exists>ps ss. c # cs = ps @ sub @ ss"
    then obtain ps ss where eq: "c # cs = ps @ sub @ ss" by auto
    show "str_in sub (c # cs)"
    proof (cases ps)
      case Nil
      then have "starts_with sub (c # cs)" using eq by (auto simp: starts_with_iff)
      then show ?thesis by simp
    next
      case (Cons a ps')
      then have "cs = ps' @ sub @ ss" using eq by simp
      then have "str_in sub cs" using Cons.IH by auto
      then show ?thesis by simp
    qed
  qed
qed

lemma energy_rows_total:
  "total_kwh (energy_rows e acc rows)
     = total_kwh acc + (\<Sum>row\<leftarrow>rows. kwh_veg e row + kwh_flow e row + kwh_dry e row)"
  by (induction rows arbitrary: acc) (simp_all add: energy_row_def)

lemma total_cost_sum:
  "total_cost e rows
     = (\<Sum>row\<leftarrow>rows. kwh_veg e row + kwh_flow e row + kwh_dry e row) * kwh_cost e"
  by (simp add: total_cost_def energy_rows_total energy_start_def)

lemma is_light_watts: "is_light (row\<lparr>watts := w\<rparr>) = is_light row"
  by (simp add: is_light_def)

lemma kwh_negated:
  "kwh_veg e (row\<lparr>watts := - watts row\<rparr>) = - kwh_veg e row"
  "kwh_flow e (row\<lparr>watts := - watts row\<rparr>) = - kwh_flow e row"
  "kwh_dry e (row\<lparr>watts := - watts row\<rparr>) = - kwh_dry e row"
  by (simp_all add: kwh_veg_def kwh_flow_def kwh_dry_def is_light_watts)

lemma kwh_zero_watts:
  "kwh_veg e (row\<lparr>watts := 0\<rparr>) = 0"
  "kwh_flow e (row\<lparr>watts := 0\<rparr>) = 0"
  "kwh_dry e (row\<lparr>watts := 0\<rparr>) = 0"
  by (simp_all add: kwh_veg_def kwh_flow_def kwh_dry_def)

lemma energy_sum_negated:
  "(\<Sum>row\<leftarrow>map (\<lambda>row. row\<lparr>watts := - watts row\<rparr>) rows.
      kwh_veg e row + kwh_flow e row + kwh_dry e row)
     = - (\<Sum>row\<leftarrow>rows. kwh_veg e row + kwh_flow e row + kwh_dry e row)"
  by (induction rows) (simp_all add: kwh_negated)

lemma energy_sum_zero_watts:
  "(\<Sum>row\<leftarrow>map (\<lambda>row. row\<lparr>watts := 0\<rparr>) rows.
      kwh_veg e row + kwh_flow e row + kwh_dry e row) = 0"
  by (induction rows) (simp_all add: kwh_zero_watts)

text \<open>
  Claim C4. For every device and every choice of phase lengths, the energy of each phase
  is watts times active hours times duty cycle times days over 1000, with 18, 12 and 0
  active hours (veg, flower, dry) for a device classified as a light and 24 hours in all
  three phases for any other device; the bill of a device list is the sum of these
  energies over its devices, times the price. For the single light of 600 W with both
  duty cycles 1.0, 35 days of veg, 63 days of flower and 0.14 per kWh, the veg energy is
  378 kWh, the flower energy 453.6 kWh and the total cost 116.424, whatever the dry duty
  and the number of dry days.
\<close>

theorem energy_per_phase:
  "kwh_veg e row
     = watts row * (if is_light row then 18 else 24) * veg_duty row * of_int (days_veg e) / 1000
   \<and> kwh_flow e row
     = watts row * (if is_light row then 12 else 24) * flower_duty row
         * of_int (days_flower e) / 1000
   \<and> kwh_dry e row
     = watts row * (if is_light row then 0 else 24) * dry_duty row * of_int (days_dry e) / 1000
   \<and> total_cost e rows
     = (\<Sum>row\<leftarrow>rows. kwh_veg e row + kwh_flow e row + kwh_dry e row) * kwh_cost e
   \<and> is_light (main_grow_light dd)
   \<and> kwh_veg (cycle_35_63 n) (main_grow_light dd) = 378
   \<and> kwh_flow (cycle_35_63 n) (main_grow_light dd) = 453.6
   \<and> kwh_dry (cycle_35_63 n) (main_grow_light dd) = 0
   \<and> total_cost (cycle_35_63 n) [main_grow_light dd] = 116.424"
proof -
  have light: "is_light (main_grow_light dd)"
    by (simp add: is_light_def main_grow_light_def)
  have veg: "kwh_veg (cycle_35_63 n) (main_grow_light dd) = 378"
    unfolding kwh_veg_def using light by (simp add: main_grow_light_def cycle_35_63_def)
  have flow: "kwh_flow (cycle_35_63 n) (main_grow_light dd) = 453.6"
    unfolding kwh_flow_def using light by (simp add: main_grow_light_def cycle_35_63_def)
  have dry: "kwh_dry (cycle_35_63 n) (main_grow_light dd) = 0"
    unfolding kwh_dry_def using light by simp
  have sum: "total_cost e rows
      = (\<Sum>row\<leftarrow>rows. kwh_veg e row + kwh_flow e row + kwh_dry e row) * kwh_cost e"
    for e rows
    by (simp add: total_cost_def energy_rows_total energy_start_def)
  have "total_cost (cycle_35_63 n) [main_grow_light dd] = (378 + 453.6 + 0) * 0.14"
    by (simp add: sum veg flow dry) (simp add: cycle_35_63_def)
  then have cost: "total_cost (cycle_35_63 n) [main_grow_light dd] = 116.424" by simp
  have phases:
    "kwh_veg e row
       = watts row * (if is_light row then 18 else 24) * veg_duty row * of_int (days_veg e) / 1000"
    "kwh_flow e row
       = watts row * (if is_light row then 12 else 24) * flower_duty row
           * of_int (days_flower e) / 1000"
    "kwh_dry e row
       = watts row * (if is_light row then 0 else 24) * dry_duty row * of_int (days_dry e) / 1000"
    by (simp_all add: kwh_veg_def kwh_flow_def kwh_dry_def)
  show ?thesis
    by (intro conjI phases sum light veg flow dry cost)
qed

text \<open>
  Claim C10, as the script has it. A device is classified as a light exactly when its
  name contains the characters \<open>Light\<close> in this case. A device whose name does not
  contain them is billed 24 hours a day in all three phases, the dry phase included. Its
  dry energy is non-zero exactly when its watts, its dry duty cycle and the number of dry
  days are all non-zero, and positive when the three are positive: a positive dry duty
  cycle alone is not enough. A device named \<open>main light\<close> is such a device.
\<close>

theorem light_by_case_sensitive_name:
  "is_light row = (\<exists>ps ss. name row = ps @ ''Light'' @ ss)
   \<and> ((\<nexists>ps ss. name row = ps @ ''Light'' @ ss) \<longrightarrow>
        kwh_veg e row = watts row * 24 * veg_duty row * of_int (days_veg e) / 1000
      \<and> kwh_flow e row = watts row * 24 * flower_duty row * of_int (days_flower e) / 1000
      \<and> kwh_dry e row = watts row * 24 * dry_duty row * of_int (days_dry e) / 1000
      \<and> (kwh_dry e row \<noteq> 0) = (watts row \<noteq> 0 \<and> dry_duty row \<noteq> 0 \<and> days_dry e \<noteq> 0)
      \<and> (0 < watts row \<and> 0 < dry_duty row \<and> 0 < days_dry e \<longrightarrow> 0 < kwh_dry e row))
   \<and> \<not> is_light (row\<lparr>name := ''main light''\<rparr>)"
proof -
  have a: "is_light row = (\<exists>ps ss. name row = ps @ ''Light'' @ ss)"
    by (simp only: is_light_def str_in_iff)
  have b: "\<not> is_light (row\<lparr>name := ''main light''\<rparr>)"
    by (simp add: is_light_def)
  show ?thesis
    using a b by (auto simp: kwh_veg_def kwh_flow_def kwh_dry_def)
qed

theorem light_by_case_sensitive_name_witness:
  "\<not> is_light \<lparr>name = ''main light'', watts = 100, veg_duty = 1, flower_duty = 1,
                dry_duty = 0.5\<rparr>
   \<and> kwh_dry \<lparr>days_veg = 35, days_flower = 63, days_dry = 14, kwh_cost = 0.14\<rparr>
       \<lparr>name = ''main light'', watts = 100, veg_duty = 1, flower_duty = 1, dry_duty = 0.5\<rparr>
     = 16.8
   \<and> 0 < kwh_dry \<lparr>days_veg = 35, days_flower = 63, days_dry = 14, kwh_cost = 0.14\<rparr>
       \<lparr>name = ''main light'', watts = 100, veg_duty = 1, flower_duty = 1, dry_duty = 0.5\<rparr>"
proof -
  let ?row = "\<lparr>name = ''main light'', watts = 100, veg_duty = 1, flower_duty = 1,
               dry_duty = 0.5\<rparr>"
  let ?e = "\<lparr>days_veg = 35, days_flower = 63, days_dry = 14, kwh_cost = 0.14\<rparr>"
  have n: "\<not> is_light ?row" by (simp add: is_light_def)
  then have h: "\<nexists>ps ss. name ?row = ps @ ''Light'' @ ss"
    using light_by_case_sensitive_name [of ?row ?e] by blast
  from light_by_case_sensitive_name [of ?row ?e] h
  have "kwh_dry ?e ?row = watts ?row * 24 * dry_duty ?row * of_int (days_dry ?e) / 1000"
    and "0 < watts ?row \<and> 0 < dry_duty ?row \<and> 0 < days_dry ?e \<longrightarrow> 0 < kwh_dry ?e ?row"
    by blast+
  then show ?thesis using n by simp
qed


text \<open>
  The claim as written fails: a device named \<open>main light\<close> with a positive dry duty
  cycle contributes nothing to the dry phase when there are no dry days, or when it draws
  zero watts.
\<close>

theorem dry_duty_alone_counterexample:
  "\<not> is_light \<lparr>name = ''main light'', watts = 100, veg_duty = 1, flower_duty = 1,
                dry_duty = 0.5\<rparr>
   \<and> kwh_dry \<lparr>days_veg = 35, days_flower = 63, days_dry = 0, kwh_cost = 0.14\<rparr>
       \<lparr>name = ''main light'', watts = 100, veg_duty = 1, flower_duty = 1, dry_duty = 0.5\<rparr>
     = 0
   \<and> \<not> is_light \<lparr>name = ''main light'', watts = 0, veg_duty = 1, flower_duty = 1,
                  dry_duty = 0.5\<rparr>
   \<and> kwh_dry \<lparr>days_veg = 35, days_flower = 63, days_dry = 14, kwh_cost = 0.14\<rparr>
       \<lparr>name = ''main light'', watts = 0, veg_duty = 1, flower_duty = 1, dry_duty = 0.5\<rparr>
     = 0"
  by (simp add: is_light_def kwh_dry_def)

section \<open>Properties of the extraction engine\<close>

text \<open>
  Claim C6. For a non-negative input mass and percentages between 0 and 100, the dry
  cured path reports no hash and a rosin mass of at most the input mass; the fresh frozen
  path reports a hash mass of at most the input mass and a rosin mass of at most the hash
  mass.
\<close>

theorem rosin_at_most_input:
  assumes "0 \<le> input_g x"
    and "0 \<le> return_rate x" "return_rate x \<le> 100"
    and "0 \<le> wash_yield x" "wash_yield x \<le> 100"
    and "0 \<le> press_yield x" "press_yield x \<le> 100"
  shows "(if input_type x = ''Dry Cured Flower''
          then hash_g x = None \<and> rosin_g x \<le> input_g x
          else case hash_g x of
                 None \<Rightarrow> False
               | Some h \<Rightarrow> rosin_g x \<le> h \<and> h \<le> input_g x)"
proof -
  have r: "of_int (return_rate x) / 100 \<le> (1::real)"
    using assms by simp
  have w: "wash_yield x / 100 \<le> 1" "0 \<le> wash_yield x / 100"
    using assms by simp_all
  have p: "of_int (press_yield x) / 100 \<le> (1::real)"
    using assms by simp
  have dry: "input_g x * (of_int (return_rate x) / 100) \<le> input_g x"
    using mult_left_le [OF r assms(1)] by simp
  have hash: "input_g x * (wash_yield x / 100) \<le> input_g x"
    using mult_left_le [OF w(1) assms(1)] by simp
  have h0: "0 \<le> input_g x * (wash_yield x / 100)"
    using assms(1) w(2) by simp
  have live: "(input_g x * (wash_yield x / 100)) * (of_int (press_yield x) / 100)
                \<le> input_g x * (wash_yield x / 100)"
    using mult_left_le [OF p h0] by simp
  show ?thesis
    using dry hash live by (simp add: hash_g_def rosin_g_def)
qed

theorem rosin_at_most_input_witness:
  "input_g (ten_ounces ''Dry Cured Flower'') = 283.5
   \<and> rosin_g (ten_ounces ''Dry Cured Flower'') = 56.7
   \<and> rosin_g (ten_ounces ''Dry Cured Flower'') \<le> input_g (ten_ounces ''Dry Cured Flower'')
   \<and> hash_g (ten_ounces ''Fresh Frozen (WPFF)'') = Some 11.34
   \<and> rosin_g (ten_ounces ''Fresh Frozen (WPFF)'') = 8.505
   \<and> rosin_g (ten_ounces ''Fresh Frozen (WPFF)'') \<le> 11.34
   \<and> 11.34 \<le> input_g (ten_ounces ''Fresh Frozen (WPFF)'')"
proof -
  let ?d = "ten_ounces ''Dry Cured Flower''"
  let ?f = "ten_ounces ''Fresh Frozen (WPFF)''"
  have g: "input_g ?d = 283.5" "input_g ?f = 283.5"
    by (simp_all add: input_g_def ten_ounces_def)
  have h: "hash_g ?f = Some 11.34"
    by (simp add: hash_g_def g) (simp add: ten_ounces_def)
  have v: "rosin_g ?d = 56.7" "rosin_g ?f = 8.505"
    by (simp_all add: rosin_g_def g) (simp_all add: ten_ounces_def)
  have dry: "input_type ?d = ''Dry Cured Flower''"
    and wet: "input_type ?f \<noteq> ''Dry Cured Flower''"
    by (simp_all add: ten_ounces_def)
  have hd: "0 \<le> input_g ?d" "0 \<le> return_rate ?d" "return_rate ?d \<le> 100"
    "0 \<le> wash_yield ?d" "wash_yield ?d \<le> 100" "0 \<le> press_yield ?d" "press_yield ?d \<le> 100"
    by (simp_all add: g) (simp_all add: ten_ounces_def)
  have hf: "0 \<le> input_g ?f" "0 \<le> return_rate ?f" "return_rate ?f \<le> 100"
    "0 \<le> wash_yield ?f" "wash_yield ?f \<le> 100" "0 \<le> press_yield ?f" "press_yield ?f \<le> 100"
    by (simp_all add: g) (simp_all add: ten_ounces_def)
  have d: "rosin_g ?d \<le> input_g ?d"
    using rosin_at_most_input [OF hd] by (simp only: dry if_True)
  have f: "rosin_g ?f \<le> 11.34 \<and> 11.34 \<le> input_g ?f"
    using rosin_at_most_input [OF hf] by (simp only: wet if_False h option.case)
  show ?thesis
    by (intro conjI g(1) v(1) d h v(2) conjunct1 [OF f] conjunct2 [OF f])
qed

section \<open>Properties of the recommender\<close>

lemma tent_logic_bands:
  "(tent_logic s = (''2x2.5 or 2x4 Tent'', ''200W-300W LED'')) = (s < 5)"
  "(tent_logic s = (''3x3 or 2x4 Tent'', ''300W-480W LED'')) = (5 \<le> s \<and> s < 10)"
  "(tent_logic s = (''4x4 Tent'', ''600W-720W Bar LED'')) = (10 \<le> s \<and> s < 17)"
  "(tent_logic s = (''5x5 Tent'', ''800W-1000W Bar LED + CO2'')) = (17 \<le> s \<and> s < 26)"
  "(tent_logic s = (''Multiple Tents or Dedicated Room'', ''Multi-light Setup'')) = (26 \<le> s)"
proof -
  consider "s < 5" | "5 \<le> s" "s < 10" | "10 \<le> s" "s < 17" | "17 \<le> s" "s < 26" | "26 \<le> s"
    by linarith
  then show
    "(tent_logic s = (''2x2.5 or 2x4 Tent'', ''200W-300W LED'')) = (s < 5)"
    "(tent_logic s = (''3x3 or 2x4 Tent'', ''300W-480W LED'')) = (5 \<le> s \<and> s < 10)"
    "(tent_logic s = (''4x4 Tent'', ''600W-720W Bar LED'')) = (10 \<le> s \<and> s < 17)"
    "(tent_logic s = (''5x5 Tent'', ''800W-1000W Bar LED + CO2'')) = (17 \<le> s \<and> s < 26)"
    "(tent_logic s = (''Multiple Tents or Dedicated Room'', ''Multi-light Setup'')) = (26 \<le> s)"
    by (cases; simp add: tent_logic_def)+
qed

lemma one_pound: "target_g ''Pounds'' 1 = 453.59"
  by (simp add: target_g_def)

lemma one_pound_sqft: "req_sqft (target_g ''Pounds'' 1) = 11.33975"
  by (simp add: one_pound req_sqft_def)

text \<open>
  Claim C7, as the script has it. The target is normalised to grams (ounces times 28.35,
  pounds times 453.59, kilograms times 1000), the required watts are the grams over 1.5
  and the required area the grams over 40. The area selects exactly one of five tiers:
  below 5 (with no lower bound), from 5 to below 10, from 10 to below 17, from 17 to
  below 26, and 26 or more. One pound is 453.59 g; it needs 45359/150 = 302.3933... W and
  11.33975 sq ft, which are 302.39 and 11.34 to two decimals only, and falls in the
  third tier, labelled \<open>4x4 Tent\<close> and \<open>600W-720W Bar LED\<close>.
\<close>

theorem recommender_tiers:
  "target_g ''Ounces'' v = v * 28.35
   \<and> target_g ''Pounds'' v = v * 453.59
   \<and> target_g ''Kilograms'' v = v * 1000
   \<and> req_watts tg = tg / 1.5
   \<and> req_sqft tg = tg / 40.0
   \<and> ((tent_rec tg, light_rec tg) = (''2x2.5 or 2x4 Tent'', ''200W-300W LED''))
       = (req_sqft tg < 5)
   \<and> ((tent_rec tg, light_rec tg) = (''3x3 or 2x4 Tent'', ''300W-480W LED''))
       = (5 \<le> req_sqft tg \<and> req_sqft tg < 10)
   \<and> ((tent_rec tg, light_rec tg) = (''4x4 Tent'', ''600W-720W Bar LED''))
       = (10 \<le> req_sqft tg \<and> req_sqft tg < 17)
   \<and> ((tent_rec tg, light_rec tg) = (''5x5 Tent'', ''800W-1000W Bar LED + CO2''))
       = (17 \<le> req_sqft tg \<and> req_sqft tg < 26)
   \<and> ((tent_rec tg, light_rec tg) = (''Multiple Tents or Dedicated Room'', ''Multi-light Setup''))
       = (26 \<le> req_sqft tg)
   \<and> target_g ''Pounds'' 1 = 453.59
   \<and> req_watts (target_g ''Pounds'' 1) = 45359 / 150
   \<and> \<bar>req_watts (target_g ''Pounds'' 1) - 302.39\<bar> < 0.005
   \<and> req_sqft (target_g ''Pounds'' 1) = 11.33975
   \<and> \<bar>req_sqft (target_g ''Pounds'' 1) - 11.34\<bar> < 0.005
   \<and> tent_rec (target_g ''Pounds'' 1) = ''4x4 Tent''
   \<and> light_rec (target_g ''Pounds'' 1) = ''600W-720W Bar LED''"
proof -
  have units: "target_g ''Ounces'' v = v * 28.35" "target_g ''Pounds'' v = v * 453.59"
    "target_g ''Kilograms'' v = v * 1000"
    by (simp_all add: target_g_def)
  have pair: "(tent_rec tg, light_rec tg) = tent_logic (req_sqft tg)"
    by (simp add: tent_rec_def light_rec_def)
  have w: "req_watts (target_g ''Pounds'' 1) = 45359 / 150"
    by (simp add: one_pound req_watts_def)
  have "tent_logic (req_sqft (target_g ''Pounds'' 1)) = (''4x4 Tent'', ''600W-720W Bar LED'')"
    by (simp only: tent_logic_bands one_pound_sqft) simp
  then have labels: "tent_rec (target_g ''Pounds'' 1) = ''4x4 Tent''"
    "light_rec (target_g ''Pounds'' 1) = ''600W-720W Bar LED''"
    by (simp_all add: tent_rec_def light_rec_def)
  have near: "\<bar>req_watts (target_g ''Pounds'' 1) - 302.39\<bar> < 0.005"
    "\<bar>req_sqft (target_g ''Pounds'' 1) - 11.34\<bar> < 0.005"
    by (simp_all add: w one_pound_sqft)
  show ?thesis
    by (intro conjI units one_pound w one_pound_sqft labels near)
       (simp_all only: pair tent_logic_bands req_watts_def req_sqft_def)
qed

text \<open>
  The claim as written fails: for one pound the required watts are not 302.39, the
  required area is not 11.34 and the light label is not \<open>600-720W Bar LED\<close>; and a
  negative target, whose area lies in none of the bands from 0 upwards, gets the first
  tier.
\<close>

theorem recommender_pound_counterexample:
  "req_watts (target_g ''Pounds'' 1) \<noteq> 302.39
   \<and> req_sqft (target_g ''Pounds'' 1) \<noteq> 11.34
   \<and> light_rec (target_g ''Pounds'' 1) \<noteq> ''600-720W Bar LED''
   \<and> req_sqft (target_g ''Ounces'' (- 1)) < 0
   \<and> tent_rec (target_g ''Ounces'' (- 1)) = ''2x2.5 or 2x4 Tent''"
proof -
  have ounce: "target_g ''Ounces'' (- 1) = - 28.35"
    by (simp add: target_g_def)
  have w: "req_watts (target_g ''Pounds'' 1) \<noteq> 302.39"
    by (simp add: one_pound req_watts_def)
  have a: "req_sqft (target_g ''Pounds'' 1) \<noteq> 11.34"
    by (simp add: one_pound_sqft)
  have "light_rec (target_g ''Pounds'' 1) = ''600W-720W Bar LED''"
    by (simp add: light_rec_def one_pound_sqft tent_logic_def)
  then have l: "light_rec (target_g ''Pounds'' 1) \<noteq> ''600-720W Bar LED''"
    by simp
  have n: "req_sqft (target_g ''Ounces'' (- 1)) = - 0.70875"
    by (simp add: ounce req_sqft_def)
  have t: "tent_rec (target_g ''Ounces'' (- 1)) = ''2x2.5 or 2x4 Tent''"
    by (simp add: tent_rec_def n tent_logic_def)
  have n': "req_sqft (target_g ''Ounces'' (- 1)) < 0"
    by (simp add: n)
  show ?thesis
    by (intro conjI w a l n' t)
qed

text \<open>
  Claim C8 on the script. The plant count is never computed: the script does not import
  \<open>math\<close>, so line 312 raises \<open>NameError\<close> for every target, one pound included. Had
  the name been bound, the line would return the ceiling of the target over 112.
\<close>

theorem est_pots_name_error:
  "est_pots script_globals tg = Inl (NameError ''math'')
   \<and> est_pots script_globals (target_g ''Pounds'' 1) = Inl (NameError ''math'')
   \<and> est_pots (''math'' # script_globals) tg = Inr \<lceil>tg / 112\<rceil>"
  by (simp add: est_pots_def load_name_def script_globals_def imported_names_def
      assigned_names_def)

section \<open>Input validation across the engines\<close>

text \<open>
  Claim C9, as the script has it. No engine checks its inputs or fails on zero or negative
  values. In the yield engine the area and the watts are positive because the input
  widgets bound them, and for no other reason. The energy engine bills whatever the
  device table holds: rows of zero watts give a zero bill, and negating the watts of
  every row negates the bill. The recommender takes any target: negating the target
  negates the required watts and area, and a target of zero or less gets non-positive
  requirements and the first tier.
\<close>

theorem engines_do_not_validate:
  "(widget_ranges i \<longrightarrow> 0 < length_ft i * width i \<and> 0 < true_watts i)
   \<and> total_cost e (map (\<lambda>row. row\<lparr>watts := 0\<rparr>) rows) = 0
   \<and> total_cost e (map (\<lambda>row. row\<lparr>watts := - watts row\<rparr>) rows) = - total_cost e rows
   \<and> req_watts (target_g u (- v)) = - req_watts (target_g u v)
   \<and> req_sqft (target_g u (- v)) = - req_sqft (target_g u v)
   \<and> (v \<le> 0 \<longrightarrow>
        req_watts (target_g u v) \<le> 0
      \<and> req_sqft (target_g u v) \<le> 0
      \<and> (tent_rec (target_g u v), light_rec (target_g u v))
          = (''2x2.5 or 2x4 Tent'', ''200W-300W LED''))"
proof -
  have zero: "total_cost e (map (\<lambda>row. row\<lparr>watts := 0\<rparr>) rows) = 0"
    unfolding total_cost_sum energy_sum_zero_watts by simp
  have neg: "total_cost e (map (\<lambda>row. row\<lparr>watts := - watts row\<rparr>) rows) = - total_cost e rows"
    unfolding total_cost_sum energy_sum_negated by simp
  have tneg: "target_g u (- v) = - target_g u v"
    by (simp add: target_g_def)
  have flip: "req_watts (target_g u (- v)) = - req_watts (target_g u v)"
    "req_sqft (target_g u (- v)) = - req_sqft (target_g u v)"
    unfolding tneg by (simp_all add: req_watts_def req_sqft_def)
  have tlow: "target_g u v \<le> 0" if "v \<le> 0"
    using that by (simp add: target_g_def mult_le_0_iff)
  have low: "req_watts (target_g u v) \<le> 0 \<and> req_sqft (target_g u v) \<le> 0" if "v \<le> 0"
    using tlow [OF that] by (simp add: req_watts_def req_sqft_def divide_le_0_iff)
  have tier: "(tent_rec (target_g u v), light_rec (target_g u v))
      = (''2x2.5 or 2x4 Tent'', ''200W-300W LED'')" if "v \<le> 0"
  proof -
    have "req_sqft (target_g u v) < 5" using low [OF that] by linarith
    then have "tent_logic (req_sqft (target_g u v)) = (''2x2.5 or 2x4 Tent'', ''200W-300W LED'')"
      by (simp only: tent_logic_bands)
    then show ?thesis by (simp add: tent_rec_def light_rec_def)
  qed
  show ?thesis
    using ranges_positive [of i] zero neg flip low tier by blast
qed

theorem engines_do_not_validate_witness:
  "widget_ranges scenario_4x4
   \<and> 0 < length_ft scenario_4x4 * width scenario_4x4
   \<and> 0 < true_watts scenario_4x4
   \<and> (- 3 :: real) \<le> 0
   \<and> req_watts (target_g ''Kilograms'' (- 3)) \<le> 0
   \<and> req_sqft (target_g ''Kilograms'' (- 3)) \<le> 0
   \<and> tent_rec (target_g ''Kilograms'' (- 3)) = ''2x2.5 or 2x4 Tent''"
proof -
  have v: "(- 3 :: real) \<le> 0" by simp
  show ?thesis
    using engines_do_not_validate [where i = scenario_4x4 and u = "''Kilograms''" and v = "- 3"]
      scenario_4x4_in_ranges v
    by simp
qed

text \<open>
  The claim as written fails: the energy engine returns a bill for a light of zero watts
  and for a light of minus 600 W, and the recommender returns requirements for a target
  of minus 3 kg.
\<close>

theorem engines_do_not_validate_counterexample:
  "total_cost (cycle_35_63 14) [(main_grow_light 0)\<lparr>watts := 0\<rparr>] = 0
   \<and> total_cost (cycle_35_63 14) [(main_grow_light 0)\<lparr>watts := - 600\<rparr>] = - 116.424
   \<and> req_watts (target_g ''Kilograms'' (- 3)) = - 2000
   \<and> req_sqft (target_g ''Kilograms'' (- 3)) = - 75
   \<and> tent_rec (target_g ''Kilograms'' (- 3)) = ''2x2.5 or 2x4 Tent''"
proof -
  let ?z = "(main_grow_light 0)\<lparr>watts := 0\<rparr>"
  let ?n = "(main_grow_light 0)\<lparr>watts := - 600\<rparr>"
  have light: "is_light ?z" "is_light ?n"
    by (simp_all add: is_light_def main_grow_light_def)
  have z: "total_cost (cycle_35_63 14) [?z] = 0"
    by (simp add: total_cost_sum kwh_zero_watts)
  have k: "kwh_veg (cycle_35_63 14) ?n = - 378" "kwh_flow (cycle_35_63 14) ?n = - 453.6"
    "kwh_dry (cycle_35_63 14) ?n = 0"
    unfolding kwh_veg_def kwh_flow_def kwh_dry_def using light
    by (simp_all add: main_grow_light_def cycle_35_63_def)
  have "total_cost (cycle_35_63 14) [?n] = (- 378 + - 453.6 + 0) * 0.14"
    by (simp add: total_cost_sum k) (simp add: cycle_35_63_def)
  then have n: "total_cost (cycle_35_63 14) [?n] = - 116.424" by simp
  have t: "target_g ''Kilograms'' (- 3) = - 3000"
    by (simp add: target_g_def)
  have w: "req_watts (target_g ''Kilograms'' (- 3)) = - 2000"
    and a: "req_sqft (target_g ''Kilograms'' (- 3)) = - 75"
    by (simp_all add: t req_watts_def req_sqft_def)
  have r: "tent_rec (target_g ''Kilograms'' (- 3)) = ''2x2.5 or 2x4 Tent''"
    by (simp add: tent_rec_def a tent_logic_def)
  show ?thesis
    by (intro conjI z n w a r)
qed

end
